theory Spec2Isabelle
  imports Complex_Main
begin

section \<open>The PSDK-to-MSDK relay of \<open>demo.py\<close>\<close>

text \<open>
  The program receives payload items from a PSDK client through a callback, puts them
  on the module-level \<open>data_queue\<close>, and a worker thread of \<open>DataBridge\<close> takes them
  off the queue one at a time and hands each to \<open>MSDKTransmitter.send_signal\<close>.

  The two SDK clients (\<open>dji_sdk.psdk\<close>, \<open>dji_sdk.msdk\<close>) are not part of the
  repository. Every call the program makes to them is recorded, in order, in the
  field \<open>calls\<close> of the process state, and whether a call raises is given by the
  parameter \<open>sdk\<close>, a function of the calls made so far and of the call itself. A run of
  the real program fixes one outcome for every call it makes, so quantifying over
  \<open>sdk\<close> covers every behaviour of the two clients.

  \<open>exn\<close> stands for the instances of Python's \<open>Exception\<close>, which is what every
  handler of the program (\<open>except Exception\<close>) catches. Every method returns
  \<open>exn + 'r\<close>: \<open>Inl e\<close> when the exception \<open>e\<close> leaves the method, \<open>Inr v\<close> when it
  returns \<open>v\<close>.
\<close>

subsection \<open>Data\<close>

datatype exn = Exception string

datatype level = DEBUG | INFO | ERROR

text \<open>The dictionary built by \<open>process_data\<close>, with its three keys.\<close>

record 'a envelope =
  timestamp :: real
  payload_data :: 'a
  type' :: string

text \<open>A client object, named by the arguments of its constructor.\<close>

datatype psdk_client = PSDKClient string int

datatype msdk_client = MSDKClient string string

text \<open>
  The calls that leave the program: the constructors and methods of the two SDK
  clients, and the two blocking calls of the standard library with the timeout the
  program passes (\<open>data_queue.get(timeout=...)\<close>, \<open>bridge_thread.join(timeout=...)\<close>).
\<close>

datatype 'a call =
    PSDK_new string int
  | PSDK_initialize psdk_client
  | PSDK_register_data_callback psdk_client
  | PSDK_start_receiving psdk_client
  | PSDK_stop_receiving psdk_client
  | PSDK_finalize psdk_client
  | MSDK_new string string
  | MSDK_initialize msdk_client
  | MSDK_send_data msdk_client "'a envelope"
  | MSDK_finalize msdk_client
  | Queue_get real
  | Thread_join real

text \<open>The messages passed to \<open>logger\<close>, one constructor for each format string.\<close>

datatype 'a msg =
    Psdk_connecting string
  | Psdk_connected
  | Psdk_connect_failed exn
  | Psdk_data 'a
  | Psdk_started
  | Psdk_start_failed exn
  | Psdk_stopped
  | Msdk_initializing
  | Msdk_initialized
  | Msdk_init_failed exn
  | Msdk_not_initialized
  | Msdk_send_status bool
  | Msdk_send_failed exn
  | Msdk_started
  | Msdk_stopped
  | Worker_started
  | Worker_error exn
  | Worker_stopped
  | Cannot_start_psdk
  | Cannot_start_msdk
  | Bridge_started
  | Bridge_stopping
  | Bridge_stopped

text \<open>
  The behaviour of the world outside the program: \<open>raises h c\<close> is the exception the
  call \<open>c\<close> raises after the calls \<open>h\<close> (\<open>None\<close>: it returns), \<open>send_ack h env\<close> is
  what \<open>send_data\<close> returns for \<open>env\<close> when it returns, \<open>time_time h\<close> is the reading of
  \<open>time.time()\<close>.
\<close>

record 'a sdk =
  raises :: "'a call list \<Rightarrow> 'a call \<Rightarrow> exn option"
  send_ack :: "'a call list \<Rightarrow> 'a envelope \<Rightarrow> bool"
  time_time :: "'a call list \<Rightarrow> real"

text \<open>
  The state of the module: the queue created at line 27 (its items and its count of
  unfinished tasks), the calls made so far and the log records written so far.
\<close>

record 'a process =
  data_queue :: "'a list"
  unfinished_tasks :: nat
  calls :: "'a call list"
  logs :: "(level \<times> 'a msg) list"

record PSDKReceiver =
  device_path :: string
  baud_rate :: int
  psdk_client :: "psdk_client option"
  psdk_running :: bool

record MSDKTransmitter =
  app_id :: string
  app_key :: string
  msdk_client :: "msdk_client option"
  msdk_running :: bool

record psdk_config =
  cfg_device_path :: string
  cfg_baud_rate :: int

record msdk_config =
  cfg_app_id :: string
  cfg_app_key :: string

text \<open>
  The worker thread: \<open>Starting\<close> once \<open>start()\<close> was called on it, \<open>Looping\<close> once it
  wrote its first log line and stands at the head of the \<open>while\<close> loop, \<open>Finished\<close>
  once \<open>_bridge_worker\<close> returned.
\<close>

datatype thread = Starting | Looping | Finished

record DataBridge =
  bridge_psdk_config :: psdk_config
  bridge_msdk_config :: msdk_config
  psdk_receiver :: PSDKReceiver
  msdk_transmitter :: MSDKTransmitter
  bridge_thread :: "thread option"
  running :: bool

subsection \<open>The module level\<close>

text \<open>\<open>data_queue = queue.Queue()\<close>: the state of the process once the module is loaded.\<close>

definition module_init :: "'a process" where
  "module_init = \<lparr>data_queue = [], unfinished_tasks = 0, calls = [], logs = []\<rparr>"

definition logger :: "level \<Rightarrow> 'a msg \<Rightarrow> 'a process \<Rightarrow> 'a process" where
  "logger lv m p = p\<lparr>logs := logs p @ [(lv, m)]\<rparr>"

text \<open>A call to one of the SDK clients: recorded, then it raises or returns.\<close>

definition sdk_call :: "'a sdk \<Rightarrow> 'a call \<Rightarrow> 'a process \<Rightarrow> (exn + unit) \<times> 'a process" where
  "sdk_call sdk c p =
     (case raises sdk (calls p) c of
        Some e \<Rightarrow> Inl e
      | None \<Rightarrow> Inr (),
      p\<lparr>calls := calls p @ [c]\<rparr>)"

definition sdk_send_data ::
  "'a sdk \<Rightarrow> msdk_client \<Rightarrow> 'a envelope \<Rightarrow> 'a process \<Rightarrow> (exn + bool) \<times> 'a process" where
  "sdk_send_data sdk c env p =
     (case raises sdk (calls p) (MSDK_send_data c env) of
        Some e \<Rightarrow> Inl e
      | None \<Rightarrow> Inr (send_ack sdk (calls p) env),
      p\<lparr>calls := calls p @ [MSDK_send_data c env]\<rparr>)"

text \<open>
  \<open>queue.Queue\<close> of the standard library: \<open>put\<close> appends at the tail and counts an
  unfinished task, \<open>get(timeout=t)\<close> takes the head, or raises \<open>queue.Empty\<close> (the result
  \<open>None\<close>) when the queue stayed empty for the time \<open>t\<close>, and \<open>task_done\<close> discounts a
  task, raising \<open>ValueError\<close> when there is none.
\<close>

definition queue_put :: "'a \<Rightarrow> 'a process \<Rightarrow> 'a process" where
  "queue_put d p =
     p\<lparr>data_queue := data_queue p @ [d], unfinished_tasks := Suc (unfinished_tasks p)\<rparr>"

definition queue_get :: "real \<Rightarrow> 'a process \<Rightarrow> 'a option \<times> 'a process" where
  "queue_get timeout p =
     (let p1 = p\<lparr>calls := calls p @ [Queue_get timeout]\<rparr>
      in case data_queue p1 of
           [] \<Rightarrow> (None, p1)
         | d # q \<Rightarrow> (Some d, p1\<lparr>data_queue := q\<rparr>))"

definition task_done :: "'a process \<Rightarrow> (exn + unit) \<times> 'a process" where
  "task_done p =
     (if unfinished_tasks p = 0 then (Inl (Exception ''ValueError''), p)
      else (Inr (), p\<lparr>unfinished_tasks := unfinished_tasks p - 1\<rparr>))"

subsection \<open>\<open>PSDKReceiver\<close>\<close>

definition PSDKReceiver_init :: "string \<Rightarrow> int \<Rightarrow> PSDKReceiver" where
  "PSDKReceiver_init path rate =
     \<lparr>device_path = path, baud_rate = rate, psdk_client = None, psdk_running = False\<rparr>"

text \<open>
  \<open>connect\<close>: the client is stored in \<open>self.psdk_client\<close> as soon as its constructor
  returns, before \<open>initialize\<close> is called.
\<close>

definition PSDKReceiver_connect ::
  "'a sdk \<Rightarrow> PSDKReceiver \<Rightarrow> 'a process \<Rightarrow> (exn + bool) \<times> PSDKReceiver \<times> 'a process" where
  "PSDKReceiver_connect sdk self p =
     (let p0 = logger INFO (Psdk_connecting (device_path self)) p
      in case sdk_call sdk (PSDK_new (device_path self) (baud_rate self)) p0 of
           (Inl e, p1) \<Rightarrow> (Inr False, self, logger ERROR (Psdk_connect_failed e) p1)
         | (Inr _, p1) \<Rightarrow>
             (let c = PSDKClient (device_path self) (baud_rate self);
                  self1 = self\<lparr>psdk_client := Some c\<rparr>
              in case sdk_call sdk (PSDK_initialize c) p1 of
                   (Inl e, p2) \<Rightarrow> (Inr False, self1, logger ERROR (Psdk_connect_failed e) p2)
                 | (Inr _, p2) \<Rightarrow> (Inr True, self1, logger INFO Psdk_connected p2)))"

definition PSDKReceiver_data_callback ::
  "PSDKReceiver \<Rightarrow> 'a \<Rightarrow> 'a process \<Rightarrow> (exn + unit) \<times> 'a process" where
  "PSDKReceiver_data_callback self d p = (Inr (), queue_put d (logger DEBUG (Psdk_data d) p))"

text \<open>
  The \<open>try\<close> block of \<open>start\<close>. On a receiver without a client the attribute access
  \<open>self.psdk_client.register_data_callback\<close> raises \<open>AttributeError\<close>, which the handler
  catches.
\<close>

definition PSDKReceiver_start_body ::
  "'a sdk \<Rightarrow> PSDKReceiver \<Rightarrow> 'a process \<Rightarrow> (exn + bool) \<times> PSDKReceiver \<times> 'a process" where
  "PSDKReceiver_start_body sdk self p =
     (case psdk_client self of
        None \<Rightarrow>
          (Inr False, self, logger ERROR (Psdk_start_failed (Exception ''AttributeError'')) p)
      | Some c \<Rightarrow>
          (case sdk_call sdk (PSDK_register_data_callback c) p of
             (Inl e, p1) \<Rightarrow> (Inr False, self, logger ERROR (Psdk_start_failed e) p1)
           | (Inr _, p1) \<Rightarrow>
               (let self1 = self\<lparr>psdk_running := True\<rparr>
                in case sdk_call sdk (PSDK_start_receiving c) p1 of
                     (Inl e, p2) \<Rightarrow> (Inr False, self1, logger ERROR (Psdk_start_failed e) p2)
                   | (Inr _, p2) \<Rightarrow> (Inr True, self1, logger INFO Psdk_started p2))))"

definition PSDKReceiver_start ::
  "'a sdk \<Rightarrow> PSDKReceiver \<Rightarrow> 'a process \<Rightarrow> (exn + bool) \<times> PSDKReceiver \<times> 'a process" where
  "PSDKReceiver_start sdk self p =
     (if psdk_client self = None then
        (case PSDKReceiver_connect sdk self p of
           (Inl e, self1, p1) \<Rightarrow> (Inl e, self1, p1)
         | (Inr False, self1, p1) \<Rightarrow> (Inr False, self1, p1)
         | (Inr True, self1, p1) \<Rightarrow> PSDKReceiver_start_body sdk self1 p1)
      else PSDKReceiver_start_body sdk self p)"

text \<open>\<open>stop\<close> has no handler: an exception of \<open>stop_receiving\<close> or \<open>finalize\<close> leaves it.\<close>

definition PSDKReceiver_stop ::
  "'a sdk \<Rightarrow> PSDKReceiver \<Rightarrow> 'a process \<Rightarrow> (exn + unit) \<times> PSDKReceiver \<times> 'a process" where
  "PSDKReceiver_stop sdk self p =
     (case psdk_client self of
        None \<Rightarrow> (Inr (), self, p)
      | Some c \<Rightarrow>
          (if psdk_running self then
             (let self1 = self\<lparr>psdk_running := False\<rparr>
              in case sdk_call sdk (PSDK_stop_receiving c) p of
                   (Inl e, p1) \<Rightarrow> (Inl e, self1, p1)
                 | (Inr _, p1) \<Rightarrow>
                     (case sdk_call sdk (PSDK_finalize c) p1 of
                        (Inl e, p2) \<Rightarrow> (Inl e, self1, p2)
                      | (Inr _, p2) \<Rightarrow> (Inr (), self1, logger INFO Psdk_stopped p2)))
           else (Inr (), self, p)))"

subsection \<open>\<open>MSDKTransmitter\<close>\<close>

definition MSDKTransmitter_init :: "string \<Rightarrow> string \<Rightarrow> MSDKTransmitter" where
  "MSDKTransmitter_init ident key =
     \<lparr>app_id = ident, app_key = key, msdk_client = None, msdk_running = False\<rparr>"

definition MSDKTransmitter_connect ::
  "'a sdk \<Rightarrow> MSDKTransmitter \<Rightarrow> 'a process \<Rightarrow> (exn + bool) \<times> MSDKTransmitter \<times> 'a process" where
  "MSDKTransmitter_connect sdk self p =
     (let p0 = logger INFO Msdk_initializing p
      in case sdk_call sdk (MSDK_new (app_id self) (app_key self)) p0 of
           (Inl e, p1) \<Rightarrow> (Inr False, self, logger ERROR (Msdk_init_failed e) p1)
         | (Inr _, p1) \<Rightarrow>
             (let c = MSDKClient (app_id self) (app_key self);
                  self1 = self\<lparr>msdk_client := Some c\<rparr>
              in case sdk_call sdk (MSDK_initialize c) p1 of
                   (Inl e, p2) \<Rightarrow> (Inr False, self1, logger ERROR (Msdk_init_failed e) p2)
                 | (Inr _, p2) \<Rightarrow> (Inr True, self1, logger INFO Msdk_initialized p2)))"

definition process_data :: "'a sdk \<Rightarrow> 'a \<Rightarrow> 'a process \<Rightarrow> 'a envelope" where
  "process_data sdk d p =
     \<lparr>timestamp = time_time sdk (calls p), payload_data = d, type' = ''sensor_data''\<rparr>"

definition MSDKTransmitter_send_signal ::
  "'a sdk \<Rightarrow> MSDKTransmitter \<Rightarrow> 'a \<Rightarrow> 'a process \<Rightarrow> (exn + bool) \<times> 'a process" where
  "MSDKTransmitter_send_signal sdk self d p =
     (case msdk_client self of
        None \<Rightarrow> (Inr False, logger ERROR Msdk_not_initialized p)
      | Some c \<Rightarrow>
          (let processed_data = process_data sdk d p
           in case sdk_send_data sdk c processed_data p of
                (Inl e, p1) \<Rightarrow> (Inr False, logger ERROR (Msdk_send_failed e) p1)
              | (Inr result, p1) \<Rightarrow> (Inr result, logger DEBUG (Msdk_send_status result) p1)))"

definition MSDKTransmitter_start ::
  "'a sdk \<Rightarrow> MSDKTransmitter \<Rightarrow> 'a process \<Rightarrow> (exn + bool) \<times> MSDKTransmitter \<times> 'a process" where
  "MSDKTransmitter_start sdk self p =
     (let started = (\<lambda>self1 p1.
            (Inr True, self1\<lparr>msdk_running := True\<rparr>, logger INFO Msdk_started p1))
      in if msdk_client self = None then
           (case MSDKTransmitter_connect sdk self p of
              (Inl e, self1, p1) \<Rightarrow> (Inl e, self1, p1)
            | (Inr False, self1, p1) \<Rightarrow> (Inr False, self1, p1)
            | (Inr True, self1, p1) \<Rightarrow> started self1 p1)
         else started self p)"

definition MSDKTransmitter_stop ::
  "'a sdk \<Rightarrow> MSDKTransmitter \<Rightarrow> 'a process \<Rightarrow> (exn + unit) \<times> MSDKTransmitter \<times> 'a process" where
  "MSDKTransmitter_stop sdk self p =
     (case msdk_client self of
        None \<Rightarrow> (Inr (), self, p)
      | Some c \<Rightarrow>
          (if msdk_running self then
             (let self1 = self\<lparr>msdk_running := False\<rparr>
              in case sdk_call sdk (MSDK_finalize c) p of
                   (Inl e, p1) \<Rightarrow> (Inl e, self1, p1)
                 | (Inr _, p1) \<Rightarrow> (Inr (), self1, logger INFO Msdk_stopped p1))
           else (Inr (), self, p)))"

subsection \<open>\<open>DataBridge\<close>\<close>

definition default_psdk_config :: psdk_config where
  "default_psdk_config = \<lparr>cfg_device_path = ''/dev/ttyUSB0'', cfg_baud_rate = 115200\<rparr>"

definition default_msdk_config :: msdk_config where
  "default_msdk_config = \<lparr>cfg_app_id = ''your_app_id'', cfg_app_key = ''your_app_key''\<rparr>"

text \<open>
  \<open>__init__\<close> builds the receiver, the transmitter and the thread control fields. It
  runs in the process and returns the process state as it found it: it does not
  touch \<open>data_queue\<close>.
\<close>

definition DataBridge_init ::
  "psdk_config option \<Rightarrow> msdk_config option \<Rightarrow> 'a process \<Rightarrow> DataBridge \<times> 'a process" where
  "DataBridge_init pc mc p =
     (let pcfg = (case pc of None \<Rightarrow> default_psdk_config | Some c \<Rightarrow> c);
          mcfg = (case mc of None \<Rightarrow> default_msdk_config | Some c \<Rightarrow> c)
      in (\<lparr>bridge_psdk_config = pcfg,
           bridge_msdk_config = mcfg,
           psdk_receiver = PSDKReceiver_init (cfg_device_path pcfg) (cfg_baud_rate pcfg),
           msdk_transmitter = MSDKTransmitter_init (cfg_app_id mcfg) (cfg_app_key mcfg),
           bridge_thread = None,
           running = False\<rparr>, p))"

text \<open>
  The \<open>try\<close> block of one iteration of \<open>_bridge_worker\<close>, for any method \<open>send\<close> in the
  place of \<open>self.msdk_transmitter.send_signal\<close>: the program's own is
  \<open>MSDKTransmitter_send_signal\<close>.
\<close>

definition iteration_body ::
  "(MSDKTransmitter \<Rightarrow> 'a \<Rightarrow> 'a process \<Rightarrow> (exn + bool) \<times> 'a process) \<Rightarrow>
   DataBridge \<Rightarrow> 'a process \<Rightarrow> (exn + unit) \<times> 'a process" where
  "iteration_body send self p =
     (case queue_get 1 p of
        (None, p1) \<Rightarrow> (Inr (), p1)
      | (Some d, p1) \<Rightarrow>
          (case send (msdk_transmitter self) d p1 of
             (Inl e, p2) \<Rightarrow> (Inl e, p2)
           | (Inr _, p2) \<Rightarrow> task_done p2))"

text \<open>One iteration: the \<open>try\<close> block and its handler \<open>except Exception\<close>.\<close>

definition bridge_iteration ::
  "(MSDKTransmitter \<Rightarrow> 'a \<Rightarrow> 'a process \<Rightarrow> (exn + bool) \<times> 'a process) \<Rightarrow>
   DataBridge \<Rightarrow> 'a process \<Rightarrow> (exn + unit) \<times> 'a process" where
  "bridge_iteration send self p =
     (case iteration_body send self p of
        (Inl e, p1) \<Rightarrow> (Inr (), logger ERROR (Worker_error e) p1)
      | (Inr _, p1) \<Rightarrow> (Inr (), p1))"

text \<open>
  One step of the thread that runs \<open>_bridge_worker\<close>: its first log line, or one test
  of \<open>self.running\<close> at the head of the loop followed by one iteration or by the exit.
  An exception that left an iteration would end the thread.
\<close>

definition worker_step ::
  "(MSDKTransmitter \<Rightarrow> 'a \<Rightarrow> 'a process \<Rightarrow> (exn + bool) \<times> 'a process) \<Rightarrow>
   DataBridge \<Rightarrow> 'a process \<Rightarrow> DataBridge \<times> 'a process" where
  "worker_step send self p =
     (case bridge_thread self of
        None \<Rightarrow> (self, p)
      | Some Finished \<Rightarrow> (self, p)
      | Some Starting \<Rightarrow> (self\<lparr>bridge_thread := Some Looping\<rparr>, logger INFO Worker_started p)
      | Some Looping \<Rightarrow>
          (if running self then
             (case bridge_iteration send self p of
                (Inl e, p1) \<Rightarrow> (self\<lparr>bridge_thread := Some Finished\<rparr>, p1)
              | (Inr _, p1) \<Rightarrow> (self, p1))
           else (self\<lparr>bridge_thread := Some Finished\<rparr>, logger INFO Worker_stopped p)))"

definition bridge_worker_step ::
  "'a sdk \<Rightarrow> DataBridge \<Rightarrow> 'a process \<Rightarrow> DataBridge \<times> 'a process" where
  "bridge_worker_step sdk = worker_step (MSDKTransmitter_send_signal sdk)"

text \<open>
  What the other threads do while the main thread is elsewhere: the PSDK client calls
  the registered callback with an item, or the worker thread takes a step. A step of
  the worker is taken as a whole: the worker reads the run flag at the head of the loop
  only, the callback only appends at the tail of the queue, and \<open>queue.Queue\<close> locks
  each of its operations, so a callback or a write of the flag in the middle of an
  iteration has the effect it would have right after it. An empty queue at a step of
  the worker stands for a \<open>get\<close> that met no item during its timeout.
\<close>

datatype 'a event = Callback 'a | Worker

definition step :: "'a sdk \<Rightarrow> 'a event \<Rightarrow> DataBridge \<times> 'a process \<Rightarrow> DataBridge \<times> 'a process" where
  "step sdk ev s =
     (case s of (self, p) \<Rightarrow>
        (case ev of
           Callback d \<Rightarrow> (self, snd (PSDKReceiver_data_callback (psdk_receiver self) d p))
         | Worker \<Rightarrow> bridge_worker_step sdk self p))"

fun run :: "'a sdk \<Rightarrow> 'a event list \<Rightarrow> DataBridge \<times> 'a process \<Rightarrow> DataBridge \<times> 'a process" where
  "run sdk [] s = s"
| "run sdk (ev # evs) s = run sdk evs (step sdk ev s)"

definition is_alive :: "thread option \<Rightarrow> bool" where
  "is_alive t = (t = Some Starting \<or> t = Some Looping)"

text \<open>
  \<open>join(timeout=t)\<close>: the main thread waits while the other threads go on (the events
  \<open>during\<close>), until the worker has finished or the time is over (no event is left).
\<close>

fun join_wait ::
  "'a sdk \<Rightarrow> 'a event list \<Rightarrow> DataBridge \<times> 'a process \<Rightarrow> DataBridge \<times> 'a process" where
  "join_wait sdk [] s = s"
| "join_wait sdk (ev # evs) s =
     (if bridge_thread (fst s) = Some Finished then s else join_wait sdk evs (step sdk ev s))"

definition thread_join ::
  "'a sdk \<Rightarrow> real \<Rightarrow> 'a event list \<Rightarrow> DataBridge \<times> 'a process \<Rightarrow> DataBridge \<times> 'a process" where
  "thread_join sdk timeout during s =
     (case s of (self, p) \<Rightarrow>
        join_wait sdk during (self, p\<lparr>calls := calls p @ [Thread_join timeout]\<rparr>))"

definition DataBridge_start ::
  "'a sdk \<Rightarrow> DataBridge \<Rightarrow> 'a process \<Rightarrow> (exn + bool) \<times> DataBridge \<times> 'a process" where
  "DataBridge_start sdk self p =
     (case PSDKReceiver_start sdk (psdk_receiver self) p of
        (Inl e, rx, p1) \<Rightarrow> (Inl e, self\<lparr>psdk_receiver := rx\<rparr>, p1)
      | (Inr False, rx, p1) \<Rightarrow>
          (Inr False, self\<lparr>psdk_receiver := rx\<rparr>, logger ERROR Cannot_start_psdk p1)
      | (Inr True, rx, p1) \<Rightarrow>
          (let self1 = self\<lparr>psdk_receiver := rx\<rparr>
           in case MSDKTransmitter_start sdk (msdk_transmitter self1) p1 of
                (Inl e, tx, p2) \<Rightarrow> (Inl e, self1\<lparr>msdk_transmitter := tx\<rparr>, p2)
              | (Inr False, tx, p2) \<Rightarrow>
                  (let self2 = self1\<lparr>msdk_transmitter := tx\<rparr>;
                       p3 = logger ERROR Cannot_start_msdk p2
                   in case PSDKReceiver_stop sdk (psdk_receiver self2) p3 of
                        (Inl e, rx', p4) \<Rightarrow> (Inl e, self2\<lparr>psdk_receiver := rx'\<rparr>, p4)
                      | (Inr _, rx', p4) \<Rightarrow> (Inr False, self2\<lparr>psdk_receiver := rx'\<rparr>, p4))
              | (Inr True, tx, p2) \<Rightarrow>
                  (Inr True,
                   self1\<lparr>msdk_transmitter := tx, running := True, bridge_thread := Some Starting\<rparr>,
                   logger INFO Bridge_started p2)))"

text \<open>
  \<open>stop\<close>, with the events \<open>during\<close> of the other threads while it waits in \<open>join\<close>. It
  has no handler: an exception of \<open>psdk_receiver.stop()\<close> leaves it before
  \<open>msdk_transmitter.stop()\<close> is called.
\<close>

definition DataBridge_stop ::
  "'a sdk \<Rightarrow> 'a event list \<Rightarrow> DataBridge \<Rightarrow> 'a process \<Rightarrow>
   (exn + unit) \<times> DataBridge \<times> 'a process" where
  "DataBridge_stop sdk during self p =
     (let p0 = logger INFO Bridge_stopping p;
          self0 = self\<lparr>running := False\<rparr>;
          s1 = (if is_alive (bridge_thread self0) then thread_join sdk 5 during (self0, p0)
                else (self0, p0));
          self1 = fst s1;
          p1 = snd s1
      in case PSDKReceiver_stop sdk (psdk_receiver self1) p1 of
           (Inl e, rx, p2) \<Rightarrow> (Inl e, self1\<lparr>psdk_receiver := rx\<rparr>, p2)
         | (Inr _, rx, p2) \<Rightarrow>
             (let self2 = self1\<lparr>psdk_receiver := rx\<rparr>
              in case MSDKTransmitter_stop sdk (msdk_transmitter self2) p2 of
                   (Inl e, tx, p3) \<Rightarrow> (Inl e, self2\<lparr>msdk_transmitter := tx\<rparr>, p3)
                 | (Inr _, tx, p3) \<Rightarrow>
                     (Inr (), self2\<lparr>msdk_transmitter := tx\<rparr>, logger INFO Bridge_stopped p3)))"

subsection \<open>Observations\<close>

text \<open>The items passed to the MSDK client's \<open>send_data\<close>, in the order of the calls.\<close>

fun sent :: "'a call list \<Rightarrow> 'a list" where
  "sent [] = []"
| "sent (MSDK_send_data c env # cs) = payload_data env # sent cs"
| "sent (_ # cs) = sent cs"

text \<open>The items the receiver callback was called with, in order.\<close>

fun pushed :: "'a event list \<Rightarrow> 'a list" where
  "pushed [] = []"
| "pushed (Callback d # evs) = d # pushed evs"
| "pushed (Worker # evs) = pushed evs"

text \<open>An SDK none of whose calls raises and whose \<open>send_data\<close> returns \<open>ack\<close>.\<close>

definition sdk_ok :: "bool \<Rightarrow> 'a sdk" where
  "sdk_ok ack = \<lparr>raises = (\<lambda>h c. None), send_ack = (\<lambda>h env. ack), time_time = (\<lambda>h. 0)\<rparr>"




text \<open>An SDK whose PSDK constructor raises and whose other calls return.\<close>

definition sdk_psdk_down :: "'a sdk" where
  "sdk_psdk_down =
     \<lparr>raises = (\<lambda>h c. case c of PSDK_new _ _ \<Rightarrow> Some (Exception ''psdk'') | _ \<Rightarrow> None),
      send_ack = (\<lambda>h env. True),
      time_time = (\<lambda>h. 0)\<rparr>"


text \<open>
  Sample states. \<open>started sdk\<close> is a bridge built with the default configuration and
  started, \<open>looping sdk\<close> the same once its worker stands at the head of the loop;
  \<open>looping_bridge\<close> and \<open>looping_process q\<close> write that state out, with the items \<open>q\<close>
  on the queue.
\<close>

definition fresh_bridge :: DataBridge where
  "fresh_bridge = fst (DataBridge_init None None (module_init :: nat process))"

definition started :: "nat sdk \<Rightarrow> DataBridge \<times> nat process" where
  "started sdk = snd (DataBridge_start sdk fresh_bridge module_init)"

definition looping :: "nat sdk \<Rightarrow> DataBridge \<times> nat process" where
  "looping sdk = run sdk [Worker] (started sdk)"

definition looping_bridge :: DataBridge where
  "looping_bridge =
     \<lparr>bridge_psdk_config = default_psdk_config,
      bridge_msdk_config = default_msdk_config,
      psdk_receiver =
        \<lparr>device_path = ''/dev/ttyUSB0'', baud_rate = 115200,
         psdk_client = Some (PSDKClient ''/dev/ttyUSB0'' 115200), psdk_running = True\<rparr>,
      msdk_transmitter =
        \<lparr>app_id = ''your_app_id'', app_key = ''your_app_key'',
         msdk_client = Some (MSDKClient ''your_app_id'' ''your_app_key''), msdk_running = True\<rparr>,
      bridge_thread = Some Looping,
      running = True\<rparr>"

definition looping_process :: "nat list \<Rightarrow> nat process" where
  "looping_process q =
     \<lparr>data_queue = q, unfinished_tasks = length q,
      calls = [PSDK_new ''/dev/ttyUSB0'' 115200,
               PSDK_initialize (PSDKClient ''/dev/ttyUSB0'' 115200),
               PSDK_register_data_callback (PSDKClient ''/dev/ttyUSB0'' 115200),
               PSDK_start_receiving (PSDKClient ''/dev/ttyUSB0'' 115200),
               MSDK_new ''your_app_id'' ''your_app_key'',
               MSDK_initialize (MSDKClient ''your_app_id'' ''your_app_key'')],
      logs = [(INFO, Psdk_connecting ''/dev/ttyUSB0''), (INFO, Psdk_connected),
              (INFO, Psdk_started), (INFO, Msdk_initializing), (INFO, Msdk_initialized),
              (INFO, Msdk_started), (INFO, Bridge_started), (INFO, Worker_started)]\<rparr>"

text \<open>
  Two bridges in one process: an item is pushed through the receiver of a first
  bridge, then a second bridge is constructed.
\<close>

definition pushed_through_A :: "nat process" where
  "pushed_through_A =
     snd (PSDKReceiver_data_callback
       (psdk_receiver (fst (DataBridge_init None None (module_init :: nat process)))) 7 module_init)"

definition bridge_B :: "DataBridge \<times> nat process" where
  "bridge_B = DataBridge_init None None pushed_through_A"

section \<open>Properties\<close>

lemmas model_defs =
  DataBridge_init_def DataBridge_start_def DataBridge_stop_def default_psdk_config_def
  default_msdk_config_def PSDKReceiver_init_def PSDKReceiver_start_def PSDKReceiver_connect_def
  PSDKReceiver_start_body_def PSDKReceiver_stop_def PSDKReceiver_data_callback_def
  MSDKTransmitter_init_def MSDKTransmitter_start_def MSDKTransmitter_connect_def
  MSDKTransmitter_stop_def MSDKTransmitter_send_signal_def process_data_def
  sdk_call_def sdk_send_data_def queue_put_def queue_get_def task_done_def logger_def
  module_init_def step_def bridge_worker_step_def worker_step_def bridge_iteration_def
  iteration_body_def thread_join_def is_alive_def Let_def

lemma looping_ok: "looping (sdk_ok False) = (looping_bridge, looping_process [])"
  by (simp add: looping_def started_def fresh_bridge_def looping_bridge_def looping_process_def
      sdk_ok_def model_defs)


subsection \<open>The transmitter\<close>



text \<open>
  C3. Envelope construction: \<open>process_data\<close> wraps the item \<open>d\<close> into an envelope whose
  timestamp is the reading of the clock at that moment, whose payload is \<open>d\<close> unchanged
  and whose type is the string \<open>sensor_data\<close>. On a transmitter that has a client,
  when \<open>send_data\<close> returns, \<open>send_signal\<close> passes exactly this envelope to the
  client, once, and returns what the client returned for it.
\<close>

theorem send_signal_envelope:
  assumes "msdk_client self = Some c"
    and "raises sdk (calls p) (MSDK_send_data c (process_data sdk d p)) = None"
  shows "process_data sdk d p =
           \<lparr>timestamp = time_time sdk (calls p), payload_data = d, type' = ''sensor_data''\<rparr> \<and>
         MSDKTransmitter_send_signal sdk self d p =
           (Inr (send_ack sdk (calls p) (process_data sdk d p)),
            logger DEBUG (Msdk_send_status (send_ack sdk (calls p) (process_data sdk d p)))
              (p\<lparr>calls := calls p @ [MSDK_send_data c (process_data sdk d p)]\<rparr>))"
  using assms
  by (simp add: MSDKTransmitter_send_signal_def sdk_send_data_def Let_def process_data_def)

theorem send_signal_envelope_witness:
  "msdk_client ((MSDKTransmitter_init ''id'' ''key'')
     \<lparr>msdk_client := Some (MSDKClient ''id'' ''key'')\<rparr>) = Some (MSDKClient ''id'' ''key'') \<and>
   raises (sdk_ok False) (calls module_init)
     (MSDK_send_data (MSDKClient ''id'' ''key'')
        (process_data (sdk_ok False) (7::nat) module_init)) = None \<and>
   process_data (sdk_ok False) (7::nat) module_init =
     \<lparr>timestamp = 0, payload_data = 7, type' = ''sensor_data''\<rparr> \<and>
   MSDKTransmitter_send_signal (sdk_ok False)
     ((MSDKTransmitter_init ''id'' ''key'')\<lparr>msdk_client := Some (MSDKClient ''id'' ''key'')\<rparr>)
     (7::nat) module_init =
     (Inr False,
      \<lparr>data_queue = [], unfinished_tasks = 0,
       calls = [MSDK_send_data (MSDKClient ''id'' ''key'')
                  \<lparr>timestamp = 0, payload_data = 7, type' = ''sensor_data''\<rparr>],
       logs = [(DEBUG, Msdk_send_status False)]\<rparr>)"
  using send_signal_envelope
      [of "(MSDKTransmitter_init ''id'' ''key'')\<lparr>msdk_client := Some (MSDKClient ''id'' ''key'')\<rparr>"
        "MSDKClient ''id'' ''key''" "sdk_ok False" module_init "7::nat"]
  by (simp add: MSDKTransmitter_init_def sdk_ok_def module_init_def process_data_def logger_def)

subsection \<open>Stopping an endpoint\<close>



subsection \<open>Starting the receiver\<close>

text \<open>What \<open>connect\<close> does, whatever the SDK does: one or two calls, and no change of the running flag.\<close>

lemma connect_calls:
  "PSDKReceiver_connect sdk self p = (r, self1, p1) \<Longrightarrow>
   (r = Inr False \<or> r = Inr True) \<and>
   (calls p1 = calls p @ [PSDK_new (device_path self) (baud_rate self)] \<or>
    calls p1 = calls p @ [PSDK_new (device_path self) (baud_rate self),
       PSDK_initialize (PSDKClient (device_path self) (baud_rate self))]) \<and>
   psdk_running self1 = psdk_running self \<and>
   (r = Inr True \<longrightarrow> psdk_client self1 = Some (PSDKClient (device_path self) (baud_rate self)))"
  by (auto simp: PSDKReceiver_connect_def sdk_call_def logger_def Let_def
      split: option.splits)

text \<open>
  C6, as amended. \<open>start\<close> does not require a prior \<open>connect\<close>: on a receiver without a
  client it calls \<open>connect\<close> itself. When that \<open>connect\<close> fails, \<open>start\<close> returns
  \<open>False\<close> with the running flag unchanged and without registering the callback or
  starting reception. When it succeeds, \<open>start\<close> goes on as on a connected receiver:
  its next call registers the callback.
\<close>

theorem receiver_start_connects_first:
  assumes "psdk_client self = None"
  shows "case PSDKReceiver_connect sdk self p of
           (r, self1, p1) \<Rightarrow>
             (r \<noteq> Inr True \<longrightarrow>
                PSDKReceiver_start sdk self p = (Inr False, self1, p1) \<and>
                psdk_running self1 = psdk_running self \<and>
                (\<forall>c. PSDK_register_data_callback c \<notin> set (drop (length (calls p)) (calls p1)) \<and>
                     PSDK_start_receiving c \<notin> set (drop (length (calls p)) (calls p1)))) \<and>
             (r = Inr True \<longrightarrow>
                PSDKReceiver_start sdk self p = PSDKReceiver_start_body sdk self1 p1 \<and>
                (\<exists>c. psdk_client self1 = Some c \<and>
                   take (Suc (length (calls p1))) (calls (snd (snd (PSDKReceiver_start sdk self p)))) =
                     calls p1 @ [PSDK_register_data_callback c]))"
proof -
  obtain r self1 p1 where c: "PSDKReceiver_connect sdk self p = (r, self1, p1)"
    by (cases "PSDKReceiver_connect sdk self p") auto
  note f = connect_calls [OF c]
  have a: "r \<noteq> Inr True \<Longrightarrow> PSDKReceiver_start sdk self p = (Inr False, self1, p1)"
    using assms c f by (auto simp: PSDKReceiver_start_def)
  have b: "r = Inr True \<Longrightarrow> PSDKReceiver_start sdk self p = PSDKReceiver_start_body sdk self1 p1"
    using assms c by (simp add: PSDKReceiver_start_def)
  have d: "\<And>c. psdk_client self1 = Some c \<Longrightarrow>
      take (Suc (length (calls p1))) (calls (snd (snd (PSDKReceiver_start_body sdk self1 p1)))) =
        calls p1 @ [PSDK_register_data_callback c]"
    by (auto simp: PSDKReceiver_start_body_def sdk_call_def logger_def Let_def
        split: option.splits)
  show ?thesis
    using a b d f by (auto simp: c)
qed

theorem receiver_start_connects_first_witness:
  "psdk_client (PSDKReceiver_init ''/dev/ttyUSB0'' 115200) = None \<and>
   PSDKReceiver_start sdk_psdk_down (PSDKReceiver_init ''/dev/ttyUSB0'' 115200)
     (module_init :: nat process) =
     (Inr False, PSDKReceiver_init ''/dev/ttyUSB0'' 115200,
      \<lparr>data_queue = [], unfinished_tasks = 0,
       calls = [PSDK_new ''/dev/ttyUSB0'' 115200],
       logs = [(INFO, Psdk_connecting ''/dev/ttyUSB0''),
               (ERROR, Psdk_connect_failed (Exception ''psdk''))]\<rparr>)"
  using receiver_start_connects_first
      [of "PSDKReceiver_init ''/dev/ttyUSB0'' 115200" sdk_psdk_down "module_init :: nat process"]
  by (simp add: PSDKReceiver_connect_def PSDKReceiver_init_def sdk_psdk_down_def sdk_call_def
      module_init_def logger_def Let_def)

text \<open>
  C6, as stated, fails: on a receiver that was never connected, with an SDK none of
  whose calls raises, \<open>start\<close> connects, registers the callback, starts reception and
  returns \<open>True\<close>.
\<close>

theorem receiver_start_unconnected_counterexample:
  "psdk_client (PSDKReceiver_init ''/dev/ttyUSB0'' 115200) = None \<and>
   PSDKReceiver_start (sdk_ok True) (PSDKReceiver_init ''/dev/ttyUSB0'' 115200)
     (module_init :: nat process) =
     (Inr True,
      \<lparr>device_path = ''/dev/ttyUSB0'', baud_rate = 115200,
       psdk_client = Some (PSDKClient ''/dev/ttyUSB0'' 115200), psdk_running = True\<rparr>,
      \<lparr>data_queue = [], unfinished_tasks = 0,
       calls = [PSDK_new ''/dev/ttyUSB0'' 115200,
                PSDK_initialize (PSDKClient ''/dev/ttyUSB0'' 115200),
                PSDK_register_data_callback (PSDKClient ''/dev/ttyUSB0'' 115200),
                PSDK_start_receiving (PSDKClient ''/dev/ttyUSB0'' 115200)],
       logs = [(INFO, Psdk_connecting ''/dev/ttyUSB0''), (INFO, Psdk_connected),
               (INFO, Psdk_started)]\<rparr>)"
  by (simp add: PSDKReceiver_start_def PSDKReceiver_connect_def PSDKReceiver_start_body_def
      PSDKReceiver_init_def sdk_ok_def sdk_call_def module_init_def logger_def Let_def)


subsection \<open>Starting the bridge\<close>





subsection \<open>The hand-off queue\<close>

lemma sent_append: "sent (xs @ ys) = sent xs @ sent ys"
  by (induction xs rule: sent.induct) auto

lemma send_signal_Inr: "\<exists>b. fst (MSDKTransmitter_send_signal sdk tx d p) = Inr b"
  by (auto simp: MSDKTransmitter_send_signal_def sdk_send_data_def Let_def split: option.splits)

lemma send_signal_sent:
  "msdk_client tx = Some c \<Longrightarrow>
   sent (calls (snd (MSDKTransmitter_send_signal sdk tx d p))) = sent (calls p) @ [d] \<and>
   data_queue (snd (MSDKTransmitter_send_signal sdk tx d p)) = data_queue p"
  by (auto simp: MSDKTransmitter_send_signal_def sdk_send_data_def logger_def Let_def
      process_data_def sent_append split: option.splits)

lemma task_done_frame:
  "calls (snd (task_done p)) = calls p \<and> data_queue (snd (task_done p)) = data_queue p \<and>
   logs (snd (task_done p)) = logs p"
  by (simp add: task_done_def)

lemma iteration_empty:
  "data_queue p = [] \<Longrightarrow>
   bridge_iteration send self p = (Inr (), p\<lparr>calls := calls p @ [Queue_get 1]\<rparr>)"
  by (simp add: bridge_iteration_def iteration_body_def queue_get_def Let_def)

lemma iteration_item:
  assumes "msdk_client (msdk_transmitter self) = Some c" and "data_queue p = d # q"
  shows "fst (bridge_iteration (MSDKTransmitter_send_signal sdk) self p) = Inr () \<and>
         sent (calls (snd (bridge_iteration (MSDKTransmitter_send_signal sdk) self p))) =
           sent (calls p) @ [d] \<and>
         data_queue (snd (bridge_iteration (MSDKTransmitter_send_signal sdk) self p)) = q"
proof -
  let ?p1 = "p\<lparr>calls := calls p @ [Queue_get 1], data_queue := q\<rparr>"
  have g: "queue_get 1 p = (Some d, ?p1)"
    using assms by (simp add: queue_get_def Let_def)
  obtain b p2 where s: "MSDKTransmitter_send_signal sdk (msdk_transmitter self) d ?p1 = (Inr b, p2)"
    using send_signal_Inr [of sdk "msdk_transmitter self" d ?p1]
    by (cases "MSDKTransmitter_send_signal sdk (msdk_transmitter self) d ?p1") auto
  have "sent (calls p2) = sent (calls ?p1) @ [d] \<and> data_queue p2 = data_queue ?p1"
    using send_signal_sent [OF assms(1), of sdk d ?p1] s by simp
  then have p2: "sent (calls p2) = sent (calls p) @ [d]" "data_queue p2 = q"
    by (simp_all add: sent_append)
  show ?thesis
    using g s p2 task_done_frame [of p2]
    by (cases "task_done p2") (auto simp: bridge_iteration_def iteration_body_def logger_def
        split: sum.splits)
qed

lemma step_fifo:
  assumes "msdk_client (msdk_transmitter self) \<noteq> None"
  shows "sent (calls (snd (step sdk ev (self, p)))) @ data_queue (snd (step sdk ev (self, p))) =
           sent (calls p) @ data_queue p @ pushed [ev] \<and>
         msdk_transmitter (fst (step sdk ev (self, p))) = msdk_transmitter self"
proof (cases ev)
  case (Callback d)
  then show ?thesis
    by (simp add: step_def PSDKReceiver_data_callback_def queue_put_def logger_def)
next
  case Worker
  obtain c where c: "msdk_client (msdk_transmitter self) = Some c"
    using assms by auto
  show ?thesis
  proof (cases "data_queue p")
    case Nil
    then show ?thesis
      using Worker
      by (auto simp: step_def bridge_worker_step_def worker_step_def iteration_empty logger_def
          sent_append split: option.splits thread.splits)
  next
    case (Cons d q)
    show ?thesis
      using Worker Cons iteration_item [OF c Cons, of sdk]
      by (auto simp: step_def bridge_worker_step_def worker_step_def logger_def
          split: option.splits thread.splits prod.splits sum.splits)
  qed
qed

text \<open>
  C1. The hand-off queue is strict FIFO with no duplication. For every sequence of
  events of the SDK thread (an item pushed through the receiver callback) and of the
  worker thread, on a bridge whose transmitter has a client (as it has once \<open>start\<close>
  succeeded): the items passed to the MSDK client so far, followed by the items still on
  the queue, are exactly the items sent and queued before, followed by the items pushed,
  in push order. So the items are handed to the transmitter in push order, none twice,
  and none is lost: an item not yet sent is still on the queue.
\<close>

theorem handoff_fifo:
  assumes "msdk_client (msdk_transmitter self) \<noteq> None"
  shows "sent (calls (snd (run sdk evs (self, p)))) @ data_queue (snd (run sdk evs (self, p))) =
           sent (calls p) @ data_queue p @ pushed evs"
  using assms
proof (induction evs arbitrary: self p)
  case Nil
  then show ?case by simp
next
  case (Cons ev evs)
  obtain self1 p1 where s: "step sdk ev (self, p) = (self1, p1)"
    by (cases "step sdk ev (self, p)") auto
  have f: "sent (calls p1) @ data_queue p1 = sent (calls p) @ data_queue p @ pushed [ev]"
    and t: "msdk_transmitter self1 = msdk_transmitter self"
    using step_fifo [OF Cons.prems, of sdk ev p] s by simp_all
  have "sent (calls (snd (run sdk evs (self1, p1)))) @ data_queue (snd (run sdk evs (self1, p1))) =
          sent (calls p1) @ data_queue p1 @ pushed evs"
    using Cons.IH [of self1 p1] Cons.prems t by simp
  moreover have "pushed (ev # evs) = pushed [ev] @ pushed evs"
    by (cases ev) simp_all
  ultimately show ?case
    using s f by (simp only: run.simps) (metis append.assoc)
qed

theorem handoff_fifo_witness:
  "looping (sdk_ok False) = (looping_bridge, looping_process []) \<and>
   msdk_client (msdk_transmitter looping_bridge) \<noteq> None \<and>
   sent (calls (snd (run (sdk_ok False) [Callback 1, Worker, Callback 2, Callback 3, Worker]
     (looping_bridge, looping_process [])))) = [1, 2] \<and>
   data_queue (snd (run (sdk_ok False) [Callback 1, Worker, Callback 2, Callback 3, Worker]
     (looping_bridge, looping_process []))) = [3] \<and>
   sent (calls (looping_process [])) @ data_queue (looping_process []) @
     pushed [Callback 1, Worker, Callback 2, Callback 3, Worker] = [1, 2, 3]"
proof -
  have e: "sent (calls (snd (run (sdk_ok False) [Callback 1, Worker, Callback 2, Callback 3, Worker]
     (looping_bridge, looping_process [])))) = [1, 2] \<and>
   data_queue (snd (run (sdk_ok False) [Callback 1, Worker, Callback 2, Callback 3, Worker]
     (looping_bridge, looping_process []))) = [3]"
    by (simp add: looping_bridge_def looping_process_def sdk_ok_def model_defs)
  show ?thesis
    using handoff_fifo [of looping_bridge "sdk_ok False"
        "[Callback 1, Worker, Callback 2, Callback 3, Worker]" "looping_process []"] e
      looping_ok
    by (simp add: looping_bridge_def looping_process_def)
qed

subsection \<open>Failed sends\<close>

lemma worker_step_item:
  assumes "bridge_thread self = Some Looping" and "running self"
  shows "bridge_worker_step sdk self p =
           (self, snd (bridge_iteration (MSDKTransmitter_send_signal sdk) self p))"
  using assms
  by (auto simp: bridge_worker_step_def worker_step_def bridge_iteration_def
      split: prod.splits sum.splits)




subsection \<open>The relay loop\<close>










subsection \<open>The life of the queue\<close>

lemma receiver_start_queue:
  "data_queue (snd (snd (PSDKReceiver_start sdk rx p))) = data_queue p"
  by (auto simp: PSDKReceiver_start_def PSDKReceiver_start_body_def PSDKReceiver_connect_def
      sdk_call_def logger_def Let_def split: option.splits)

lemma receiver_stop_queue:
  "data_queue (snd (snd (PSDKReceiver_stop sdk rx p))) = data_queue p"
  by (auto simp: PSDKReceiver_stop_def sdk_call_def logger_def Let_def split: option.splits)

lemma transmitter_start_queue:
  "data_queue (snd (snd (MSDKTransmitter_start sdk tx p))) = data_queue p"
  by (auto simp: MSDKTransmitter_start_def MSDKTransmitter_connect_def
      sdk_call_def logger_def Let_def split: option.splits)

lemma transmitter_stop_queue:
  "data_queue (snd (snd (MSDKTransmitter_stop sdk tx p))) = data_queue p"
  by (auto simp: MSDKTransmitter_stop_def sdk_call_def logger_def Let_def split: option.splits)

lemma bridge_start_queue:
  "data_queue (snd (snd (DataBridge_start sdk self p))) = data_queue p"
proof -
  obtain r rx p1 where a: "PSDKReceiver_start sdk (psdk_receiver self) p = (r, rx, p1)"
    by (cases "PSDKReceiver_start sdk (psdk_receiver self) p") auto
  obtain r2 tx p2 where b: "MSDKTransmitter_start sdk (msdk_transmitter self) p1 = (r2, tx, p2)"
    by (cases "MSDKTransmitter_start sdk (msdk_transmitter self) p1") auto
  obtain r3 rx3 p4 where c:
    "PSDKReceiver_stop sdk rx (logger ERROR Cannot_start_msdk p2) = (r3, rx3, p4)"
    by (cases "PSDKReceiver_stop sdk rx (logger ERROR Cannot_start_msdk p2)") auto
  have "data_queue p1 = data_queue p"
    using receiver_start_queue [of sdk "psdk_receiver self" p] a by simp
  moreover have "data_queue p2 = data_queue p1"
    using transmitter_start_queue [of sdk "msdk_transmitter self" p1] b by simp
  moreover have "data_queue p4 = data_queue p2"
    using receiver_stop_queue [of sdk rx "logger ERROR Cannot_start_msdk p2"] c
    by (simp add: logger_def)
  ultimately show ?thesis
    using a b c
    by (auto simp: DataBridge_start_def Let_def logger_def split: sum.splits bool.splits)
qed

lemma bridge_stop_queue:
  "data_queue (snd (snd (DataBridge_stop sdk [] self p))) = data_queue p"
proof -
  let ?p0 = "logger INFO Bridge_stopping p"
  let ?p1 = "if is_alive (bridge_thread self) then ?p0\<lparr>calls := calls ?p0 @ [Thread_join 5]\<rparr> else ?p0"
  obtain r rx p2 where a: "PSDKReceiver_stop sdk (psdk_receiver self) ?p1 = (r, rx, p2)"
    by (cases "PSDKReceiver_stop sdk (psdk_receiver self) ?p1") auto
  obtain r3 tx p3 where b: "MSDKTransmitter_stop sdk (msdk_transmitter self) p2 = (r3, tx, p3)"
    by (cases "MSDKTransmitter_stop sdk (msdk_transmitter self) p2") auto
  have "data_queue p2 = data_queue p"
    using receiver_stop_queue [of sdk "psdk_receiver self" ?p1] a by (simp add: logger_def)
  moreover have "data_queue p3 = data_queue p2"
    using transmitter_stop_queue [of sdk "msdk_transmitter self" p2] b by simp
  ultimately show ?thesis
    using a b
    by (auto simp: DataBridge_stop_def Let_def thread_join_def logger_def split: sum.splits)
qed

lemma iteration_pops:
  "data_queue p = d # q \<Longrightarrow>
   data_queue (snd (bridge_iteration (MSDKTransmitter_send_signal sdk) self p)) = q"
  by (auto simp: bridge_iteration_def iteration_body_def queue_get_def
      MSDKTransmitter_send_signal_def sdk_send_data_def task_done_def logger_def Let_def
      split: option.splits)

text \<open>
  C9, as amended. The hand-off queue is created once, empty, when the module is
  loaded, and is never recreated: constructing a bridge leaves the process state,
  queue included, as it was; \<open>start\<close> and \<open>stop\<close> leave the queue as it was; the
  callback of any receiver appends to it; and the worker of any running bridge takes
  its head item and sends it, whichever receiver pushed it. All bridges of the process
  share the one queue.
\<close>

theorem queue_is_process_wide:
  "data_queue (module_init :: 'a process) = [] \<and>
   snd (DataBridge_init pc mc p) = p \<and>
   data_queue (snd (PSDKReceiver_data_callback rx d p)) = data_queue p @ [d] \<and>
   data_queue (snd (snd (DataBridge_start sdk self p))) = data_queue p \<and>
   data_queue (snd (snd (DataBridge_stop sdk [] self p))) = data_queue p \<and>
   (bridge_thread self = Some Looping \<longrightarrow> running self \<longrightarrow> data_queue p = d' # q \<longrightarrow>
      data_queue (snd (bridge_worker_step sdk self p)) = q \<and>
      (msdk_client (msdk_transmitter self) \<noteq> None \<longrightarrow>
         sent (calls (snd (bridge_worker_step sdk self p))) = sent (calls p) @ [d']))"
proof -
  have w: "data_queue (snd (bridge_worker_step sdk self p)) = q \<and>
      (msdk_client (msdk_transmitter self) \<noteq> None \<longrightarrow>
         sent (calls (snd (bridge_worker_step sdk self p))) = sent (calls p) @ [d'])"
    if "bridge_thread self = Some Looping" "running self" "data_queue p = d' # q"
    using that worker_step_item [OF that(1,2), of sdk p] iteration_pops [OF that(3), of sdk self]
      iteration_item [of self _ p d' q sdk]
    by auto
  show ?thesis
    using w bridge_start_queue [of sdk self p] bridge_stop_queue [of sdk self p]
    by (simp add: module_init_def DataBridge_init_def Let_def PSDKReceiver_data_callback_def
        queue_put_def logger_def)
qed

theorem queue_is_process_wide_witness:
  "bridge_thread looping_bridge = Some Looping \<and> running looping_bridge \<and>
   data_queue (looping_process [7]) = [7] \<and>
   msdk_client (msdk_transmitter looping_bridge) \<noteq> None \<and>
   data_queue (snd (bridge_worker_step (sdk_ok True) looping_bridge (looping_process [7]))) = [] \<and>
   sent (calls (snd (bridge_worker_step (sdk_ok True) looping_bridge (looping_process [7])))) = [7]"
proof -
  have h: "bridge_thread looping_bridge = Some Looping" "running looping_bridge"
    "data_queue (looping_process [7]) = [7]"
    "msdk_client (msdk_transmitter looping_bridge) \<noteq> None"
    "sent (calls (looping_process [7])) = []"
    by (simp_all add: looping_bridge_def looping_process_def)
  show ?thesis
    using queue_is_process_wide [of None None "looping_process [7]"
        "psdk_receiver looping_bridge" 7 "sdk_ok True" looping_bridge 7 "[]"] h
    by auto
qed

text \<open>
  C9, as stated, fails: after an item was pushed through the receiver of a first
  bridge, a second, freshly constructed bridge finds that item on the queue, and once
  started its worker sends it.
\<close>

theorem fresh_bridge_queue_counterexample:
  "data_queue (snd bridge_B) = [7] \<and>
   fst (DataBridge_start (sdk_ok True) (fst bridge_B) (snd bridge_B)) = Inr True \<and>
   sent (calls (snd (run (sdk_ok True) [Worker, Worker]
     (snd (DataBridge_start (sdk_ok True) (fst bridge_B) (snd bridge_B)))))) = [7]"
  by (simp add: bridge_B_def pushed_through_A_def sdk_ok_def model_defs)

subsection \<open>Stopping the bridge\<close>










end
